theory Spec2Isabelle
  imports Complex_Main "HOL-Library.Word" "HOL-Library.Multiset"
begin

section \<open>JavaScript values used by the generation controller\<close>

text \<open>
  A JavaScript string is a sequence of UTF-16 code units. String literals of the source
  are ASCII; \<open>js\<close> turns an Isabelle literal into its code units.
\<close>

type_synonym jsstring = "16 word list"

definition js :: "string \<Rightarrow> jsstring" where
  "js s = map (\<lambda>c. of_nat (of_char c)) s"

text \<open>
  \<open>String.prototype.trim\<close> removes WhiteSpace and LineTerminator code points from both
  ends (ECMAScript: TAB, LF, VT, FF, CR, SP, NBSP, the Unicode space separators,
  LS, PS and the byte order mark).
\<close>

definition is_white_space :: "16 word \<Rightarrow> bool" where
  "is_white_space c \<longleftrightarrow>
     c = 0x09 \<or> c = 0x0A \<or> c = 0x0B \<or> c = 0x0C \<or> c = 0x0D \<or> c = 0x20 \<or> c = 0xA0 \<or>
     c = 0x1680 \<or> (0x2000 \<le> c \<and> c \<le> 0x200A) \<or> c = 0x2028 \<or> c = 0x2029 \<or>
     c = 0x202F \<or> c = 0x205F \<or> c = 0x3000 \<or> c = 0xFEFF"

definition trim :: "jsstring \<Rightarrow> jsstring" where
  "trim s = rev (dropWhile is_white_space (rev (dropWhile is_white_space s)))"

text \<open>\<open>s.includes(t)\<close> (named \<open>str_includes\<close> here): \<open>t\<close> occurs in \<open>s\<close> as a contiguous run of code units.\<close>

fun starts_with :: "'a list \<Rightarrow> 'a list \<Rightarrow> bool" where
  "starts_with s [] = True"
| "starts_with [] (y # ys) = False"
| "starts_with (x # xs) (y # ys) = (x = y \<and> starts_with xs ys)"

fun str_includes :: "'a list \<Rightarrow> 'a list \<Rightarrow> bool" where
  "str_includes [] t = (t = [])"
| "str_includes (x # xs) t = (starts_with (x # xs) t \<or> str_includes xs t)"

text \<open>
  JavaScript numbers are doubles. The controller only handles integers (the parsed
  Retry-After value, the delays in milliseconds). The model splits the doubles it can
  meet in three: \<open>NaN\<close>; \<open>Fin n\<close>, the double that is exactly the integer \<open>n\<close>, for
  \<open>\<bar>n\<bar> < 2^53\<close> (every such integer is a double, and \<open>Fin 0\<close> is either zero); and
  \<open>Big\<close>, any double of magnitude \<open>2^53\<close> or more, the infinities included. An integer
  of magnitude \<open>2^53\<close> or more is rounded to a double of magnitude \<open>2^53\<close> or more, so
  \<open>to_double\<close> says in which part the double of an integer lies without fixing the
  rounding.
\<close>

datatype jsnum = NaN | Fin int | Big

definition to_double :: "int \<Rightarrow> jsnum" where
  "to_double n = (if \<bar>n\<bar> < 2 ^ 53 then Fin n else Big)"

text \<open>\<open>x * 1000\<close>.\<close>

fun times_1000 :: "jsnum \<Rightarrow> jsnum" where
  "times_1000 NaN = NaN"
| "times_1000 (Fin n) = to_double (n * 1000)"
| "times_1000 Big = Big"

text \<open>
  \<open>parseInt(s, 10)\<close>: skip leading white space, read an optional sign, then the longest
  run of decimal digits; no digit gives NaN.
\<close>

definition is_digit :: "16 word \<Rightarrow> bool" where
  "is_digit c \<longleftrightarrow> 0x30 \<le> c \<and> c \<le> 0x39"

definition digits_value :: "jsstring \<Rightarrow> int" where
  "digits_value ds = foldl (\<lambda>acc c. 10 * acc + (uint c - 0x30)) 0 ds"

definition parseInt10 :: "jsstring \<Rightarrow> jsnum" where
  "parseInt10 s =
     (let S = dropWhile is_white_space s;
          neg = (S \<noteq> [] \<and> hd S = 0x2D);
          S' = (if S \<noteq> [] \<and> (hd S = 0x2B \<or> hd S = 0x2D) then tl S else S);
          Z = takeWhile is_digit S'
      in if Z = [] then NaN
         else to_double (if neg then - digits_value Z else digits_value Z))"

text \<open>
  The value \<open>JSON.parse\<close> gives for a response body. An object is the list of its
  own properties after parsing (each key once).
\<close>

datatype json =
    JNull
  | JBool bool
  | JNumber rat
  | JString jsstring
  | JArray "json list"
  | JObject "(jsstring \<times> json) list"

fun truthy :: "json \<Rightarrow> bool" where
  "truthy JNull = False"
| "truthy (JBool b) = b"
| "truthy (JNumber q) = (q \<noteq> 0)"
| "truthy (JString s) = (s \<noteq> [])"
| "truthy (JArray xs) = True"
| "truthy (JObject kvs) = True"

text \<open>\<open>typeof v === 'object'\<close>: arrays, objects and null.\<close>

fun is_object :: "json \<Rightarrow> bool" where
  "is_object (JArray xs) = True"
| "is_object (JObject kvs) = True"
| "is_object JNull = True"
| "is_object v = False"

text \<open>
  \<open>v.k\<close> for \<open>k\<close> one of \<open>error\<close>, \<open>warnings\<close>: an own property of a parsed
  object; undefined (\<open>None\<close>) on an array. Reading a property of null throws, which the
  caller models.
\<close>

fun property :: "json \<Rightarrow> jsstring \<Rightarrow> json option" where
  "property (JObject kvs) k = map_of kvs k"
| "property v k = None"

text \<open>What a \<open>throw\<close> carries: an \<open>Error\<close> instance with its name and message, or
  any other value.\<close>

datatype thrown = Error_obj (name: jsstring) (message: jsstring) | Non_error


section \<open>The platform and the upstream, as the controller sees them\<close>

text \<open>
  A \<open>Response\<close> of \<open>fetch\<close>: its status, the value of \<open>headers.get('Retry-After')\<close>
  (\<open>None\<close> is JavaScript's null: the header is absent), and what each of the body
  readers the source calls will deliver. \<open>text_result\<close> is the outcome of
  \<open>response.text()\<close> in the one place the source calls it: after \<open>response.json()\<close>
  has already been called on the same response. A reader is \<open>Pending\<close> when the body of
  the response never ends: the abort timer of an attempt is cleared once the response
  has arrived (line 99), so nothing in the source bounds that wait.
\<close>

text \<open>What an awaited promise of the platform does: it is fulfilled with a value, it
  is rejected with an error, or it never settles and the \<open>await\<close> never returns.\<close>

datatype 'a promise = Fulfilled 'a | Rejected thrown | Pending

datatype blob = Blob (data_url: "jsstring option")
  \<comment> \<open>the body of a response, with what \<open>FileReader.readAsDataURL\<close> will leave in
      \<open>reader.result\<close> for it (\<open>None\<close>: the read fails and the result is null)\<close>

record response =
  status :: nat
  retry_after :: "jsstring option"
  json_result :: "json promise"
  text_result :: "jsstring promise"
  blob_result :: "blob promise"

text \<open>\<open>response.ok\<close> is true for the statuses 200 to 299 (Fetch standard).\<close>

definition ok :: "response \<Rightarrow> bool" where
  "ok r \<longleftrightarrow> 200 \<le> status r \<and> status r \<le> 299"

text \<open>
  What the network does with one request: a response or a failure after so many
  milliseconds, or nothing at all.
\<close>

datatype network = Arrives nat response | Fails nat thrown | Never

record attempt =
  network :: network
  random_seed :: nat

record user =
  uid :: jsstring

text \<open>
  Everything outside \<open>generateImage\<close> that it reads: the closure variables \<open>user\<close> and
  \<open>prompt\<close>, the configured API key (\<open>None\<close>: undefined), what the upstream does at the
  attempt made with each retry count, the platform's \<open>JSON.stringify\<close> and the messages
  of the errors the platform throws, and the data store's side of an insert (the
  identity \<open>auth.uid()\<close> of the client, whether the store can be reached, the id and
  the time it assigns to a new row).
\<close>

record env =
  user :: "user option"
  prompt :: jsstring
  api_key :: "jsstring option"
  upstream :: "nat \<Rightarrow> attempt"
  stringify :: "json \<Rightarrow> jsstring"
  abort_message :: jsstring
  type_error_message :: "json \<Rightarrow> jsstring"
  auth_uid :: "jsstring option"
  store_reachable :: bool
  new_id :: jsstring
  now :: nat

section \<open>The data store (the migration's table and policies)\<close>

record image_row =
  row_id :: jsstring
  user_id :: jsstring
  image_url :: jsstring
  row_prompt :: jsstring
  created_at :: nat

text \<open>The object \<open>saveImage\<close> inserts; \<open>image_url\<close> is null when the reader had no result.\<close>

record new_image =
  new_user_id :: jsstring
  new_image_url :: "jsstring option"
  new_prompt :: jsstring

datatype pg_error = Store_unreachable | Rls_violation | Not_null_violation

text \<open>
  The \<open>error\<close> of \<open>supabase.from('images').insert([v])\<close>: the store may be out of reach;
  the policy "Users can insert their own images" checks \<open>auth.uid() = user_id\<close>;
  \<open>image_url\<close> is declared NOT NULL.
\<close>

definition insert_error :: "env \<Rightarrow> new_image \<Rightarrow> pg_error option" where
  "insert_error env v =
     (if \<not> store_reachable env then Some Store_unreachable
      else if auth_uid env \<noteq> Some (new_user_id v) then Some Rls_violation
      else if new_image_url v = None then Some Not_null_violation
      else None)"

definition insert_images :: "env \<Rightarrow> new_image \<Rightarrow> image_row list \<Rightarrow> image_row list" where
  "insert_images env v table =
     (case (insert_error env v, new_image_url v) of
        (None, Some url) \<Rightarrow>
          table @ [\<lparr>row_id = new_id env, user_id = new_user_id v, image_url = url,
                     row_prompt = new_prompt v, created_at = now env\<rparr>]
      | _ \<Rightarrow> table)"


section \<open>The generation controller (\<open>Home\<close>)\<close>

text \<open>
  What the component does to the outside, in order: notifications, console output, its
  own state setters, the network call, the waits, the insert into the store, and an
  exception no handler catches. \<open>Delay\<close> records the argument \<open>delay\<close> is called with,
  in milliseconds. \<open>Awaits_forever\<close> is not an action: it marks that the call is left at
  an \<open>await\<close> whose promise never settles, so that nothing follows it and the call never
  returns.
\<close>

record request =
  authorization :: jsstring
  inputs :: jsstring
  seed :: nat

datatype event =
    Toast_error jsstring
  | Toast_success jsstring
  | Console_error
  | Set_loading bool
  | Fetch request
  | Delay jsnum
  | Set_generated_image "jsstring option"
  | Insert new_image
  | Uncaught thrown
  | Awaits_forever

definition MAX_RETRIES :: nat where
  "MAX_RETRIES = 3"

definition RETRY_DELAY :: jsnum where
  "RETRY_DELAY = Fin 2000"

text \<open>
  Module initialisation: the client \<open>hf\<close> is constructed only when the API key is
  truthy; otherwise the error thrown is caught and logged, and \<open>hf\<close> stays undefined.
\<close>

datatype hf_client = HfInference jsstring

definition module_init :: "jsstring option \<Rightarrow> hf_client option \<times> event list" where
  "module_init apiKey =
     (case apiKey of
        None \<Rightarrow> (None, [Console_error])
      | Some k \<Rightarrow> if k = [] then (None, [Console_error]) else (Some (HfInference k), []))"

definition hf :: "env \<Rightarrow> hf_client option" where
  "hf env = fst (module_init (api_key env))"

subsection \<open>\<open>saveImage\<close>\<close>

definition saveImage :: "env \<Rightarrow> jsstring option \<Rightarrow> jsstring \<Rightarrow> event list" where
  "saveImage env imageUrl p =
     (case user env of
        None \<Rightarrow> [Toast_error (js ''Please sign in to save images'')]
      | Some u \<Rightarrow>
          (let v = \<lparr>new_user_id = uid u, new_image_url = imageUrl, new_prompt = p\<rparr>
           in Insert v #
              (case insert_error env v of
                 Some e \<Rightarrow> [Console_error, Toast_error (js ''Failed to save image'')]
               | None \<Rightarrow> [Toast_success (js ''Image saved to your gallery!'')])))"

subsection \<open>One attempt of \<open>generateImage\<close>\<close>

text \<open>The style suffix of line 74, and the request of lines 79 to 97 (the constant
  generation parameters, which no decision reads, are left out).\<close>

definition style_suffix :: jsstring where
  "style_suffix = js '', high quality, detailed, cartoon style, digital art, vibrant colors, sharp focus, clean lines, professional illustration''"

definition enhancedPrompt :: "env \<Rightarrow> jsstring" where
  "enhancedPrompt env = prompt env @ style_suffix"

definition request_of :: "env \<Rightarrow> nat \<Rightarrow> request" where
  "request_of env retryCount =
     \<lparr>authorization = js ''Bearer '' @ (case api_key env of Some k \<Rightarrow> k | None \<Rightarrow> js ''undefined''),
      inputs = enhancedPrompt env,
      seed = random_seed (upstream env retryCount)\<rparr>"

text \<open>
  The \<open>fetch\<close> with its abort timer (lines 76 to 97): the promise settles as the network
  does when that happens before the timer fires, and rejects with an \<open>AbortError\<close>
  otherwise. When both fall on the same millisecond the model lets the timer win; no
  statement below depends on that choice.
\<close>

definition FETCH_TIMEOUT :: nat where
  "FETCH_TIMEOUT = 30000"

definition abort_error :: "env \<Rightarrow> thrown" where
  "abort_error env = Error_obj (js ''AbortError'') (abort_message env)"

definition fetch_result :: "env \<Rightarrow> network \<Rightarrow> thrown + response" where
  "fetch_result env n =
     (case n of
        Arrives t r \<Rightarrow> if t < FETCH_TIMEOUT then Inr r else Inl (abort_error env)
      | Fails t e \<Rightarrow> if t < FETCH_TIMEOUT then Inl e else Inl (abort_error env)
      | Never \<Rightarrow> Inl (abort_error env))"

text \<open>Line 102: \<open>await response.json().catch(() => null) || await response.text()\<close>.\<close>

definition response_text :: "response \<Rightarrow> json promise" where
  "response_text r =
     (case text_result r of
        Fulfilled s \<Rightarrow> Fulfilled (JString s)
      | Rejected e \<Rightarrow> Rejected e
      | Pending \<Rightarrow> Pending)"

definition error_data :: "response \<Rightarrow> json promise" where
  "error_data r =
     (case json_result r of
        Fulfilled v \<Rightarrow> if truthy v then Fulfilled v else response_text r
      | Rejected e \<Rightarrow> response_text r
      | Pending \<Rightarrow> Pending)"

text \<open>
  Lines 105 to 108. Null has type \<open>object\<close> and reading \<open>null.error\<close> throws (the error
  data of a response is never null, \<open>error_data_not_null\<close> below).
  \<open>w.includes('CUDA out of memory')\<close> is the substring test on a
  string and the membership test on an array; on any other value there is no such
  method and the call throws a TypeError, as \<open>warnings.some\<close> does when \<open>warnings\<close> is
  not an array. \<open>some\<close> stops at the first element for which the test holds.
\<close>

definition cuda_marker :: jsstring where
  "cuda_marker = js ''CUDA out of memory''"

definition type_error :: "env \<Rightarrow> json \<Rightarrow> thrown" where
  "type_error env v = Error_obj (js ''TypeError'') (type_error_message env v)"

fun warning_includes :: "env \<Rightarrow> json \<Rightarrow> thrown + bool" where
  "warning_includes env (JString s) = Inr (str_includes s cuda_marker)"
| "warning_includes env (JArray xs) = Inr (List.member xs (JString cuda_marker))"
| "warning_includes env w = Inl (type_error env w)"

fun some_warning :: "env \<Rightarrow> json list \<Rightarrow> thrown + bool" where
  "some_warning env [] = Inr False"
| "some_warning env (w # ws) =
     (case warning_includes env w of
        Inl e \<Rightarrow> Inl e
      | Inr b \<Rightarrow> if b then Inr True else some_warning env ws)"

definition cuda_out_of_memory :: "env \<Rightarrow> json \<Rightarrow> thrown + bool" where
  "cuda_out_of_memory env errorData =
     (if \<not> is_object errorData then Inr False
      else if errorData = JNull then Inl (type_error env errorData)
      else (case property errorData (js ''error'') of
        None \<Rightarrow> Inr False
      | Some e \<Rightarrow>
          if \<not> truthy e then Inr False
          else (case property errorData (js ''warnings'') of
            None \<Rightarrow> Inr False
          | Some ws \<Rightarrow>
              if \<not> truthy ws then Inr False
              else (case ws of
                JArray xs \<Rightarrow> some_warning env xs
              | _ \<Rightarrow> Inl (type_error env ws)))))"

text \<open>How the \<open>try\<close> block of one attempt ends: with one of its two
  \<open>return generateImage(retryCount + 1)\<close> after a wait, with an exception, by
  falling through after \<open>reader.readAsDataURL(blob)\<close>, or not at all, at an \<open>await\<close> of
  the body that never returns.\<close>

datatype try_end = Retry jsnum | Throws thrown | Completes blob | Hangs

definition retryAfter :: "response \<Rightarrow> jsnum" where
  "retryAfter r =
     parseInt10 (case retry_after r of
                   None \<Rightarrow> js ''5''
                 | Some h \<Rightarrow> if h = [] then js ''5'' else h)"

definition api_request_failed :: "env \<Rightarrow> json \<Rightarrow> thrown" where
  "api_request_failed env errorData =
     Error_obj (js ''Error'') (js ''API request failed: '' @ stringify env errorData)"

definition not_ok :: "env \<Rightarrow> nat \<Rightarrow> response \<Rightarrow> try_end" where
  "not_ok env retryCount r =
     (case error_data r of
        Pending \<Rightarrow> Hangs
      | Rejected e \<Rightarrow> Throws e
      | Fulfilled errorData \<Rightarrow>
          (case cuda_out_of_memory env errorData of
             Inl e \<Rightarrow> Throws e
           | Inr cuda \<Rightarrow>
               if cuda \<and> retryCount < MAX_RETRIES then Retry RETRY_DELAY
               else if status r = 429 \<and> retryCount < MAX_RETRIES
                 then Retry (times_1000 (retryAfter r))
               else Throws (api_request_failed env errorData)))"

definition try_block :: "env \<Rightarrow> nat \<Rightarrow> try_end" where
  "try_block env retryCount =
     (case fetch_result env (network (upstream env retryCount)) of
        Inl e \<Rightarrow> Throws e
      | Inr r \<Rightarrow>
          if \<not> ok r then not_ok env retryCount r
          else (case blob_result r of
                  Fulfilled b \<Rightarrow> Completes b
                | Rejected e \<Rightarrow> Throws e
                | Pending \<Rightarrow> Hangs))"

text \<open>The \<open>catch\<close> block: which errors are retried (lines 147 to 150) and the message
  shown otherwise (lines 157 to 160).\<close>

fun transport_failure :: "thrown \<Rightarrow> bool" where
  "transport_failure (Error_obj n m) =
     (n = js ''AbortError'' \<or> str_includes m (js ''Failed to fetch''))"
| "transport_failure Non_error = False"

fun errorMessage :: "thrown \<Rightarrow> jsstring" where
  "errorMessage (Error_obj n m) = m"
| "errorMessage Non_error = js ''Failed to generate image. Please try again.''"

text \<open>The reader's handlers, which run after \<open>generateImage\<close> has returned: \<open>onerror\<close>
  (its exception reaches no handler) when the read fails, then \<open>onloadend\<close>.\<close>

definition reader_handlers :: "env \<Rightarrow> blob \<Rightarrow> event list" where
  "reader_handlers env b =
     (case data_url b of
        None \<Rightarrow> [Uncaught (Error_obj (js ''Error'') (js ''Failed to process the generated image''))]
      | Some d \<Rightarrow> [])
     @ [Set_generated_image (data_url b)]
     @ saveImage env (data_url b) (prompt env)
     @ [Toast_success (js ''Image generated successfully!'')]"

subsection \<open>\<open>generateImage\<close>\<close>

text \<open>
  The result is the pair of what the call does before its first \<open>await\<close> and what
  happens after. \<open>return generateImage(retryCount + 1)\<close> stands inside \<open>try\<close> ...
  \<open>finally\<close>: the inner call runs up to its first \<open>await\<close>, then the outer \<open>finally\<close>
  block runs \<open>setLoading(false)\<close>, then the inner call goes on. When the \<open>try\<close> block
  hangs, neither \<open>catch\<close> nor \<open>finally\<close> runs.
\<close>

definition resubmit :: "event list \<times> event list \<Rightarrow> event list" where
  "resubmit inner = fst inner @ [Set_loading False] @ snd inner"

function generateImage :: "env \<Rightarrow> nat \<Rightarrow> event list \<times> event list" where
  "generateImage env retryCount =
     (if user env = None then ([Toast_error (js ''Please sign in to generate images'')], [])
      else if trim (prompt env) = [] then ([Toast_error (js ''Please enter a prompt'')], [])
      else if hf env = None
        then ([Toast_error (js ''API client is not properly initialized'')], [])
      else
        ([Set_loading True, Fetch (request_of env retryCount)],
         (case try_block env retryCount of
            Retry ms \<Rightarrow> Delay ms # resubmit (generateImage env (retryCount + 1))
          | Completes b \<Rightarrow> Set_loading False # reader_handlers env b
          | Hangs \<Rightarrow> [Awaits_forever]
          | Throws error \<Rightarrow>
              Console_error #
              (if transport_failure error \<and> retryCount < MAX_RETRIES
               then Delay RETRY_DELAY # resubmit (generateImage env (retryCount + 1))
               else [Toast_error (errorMessage error), Set_loading False]))))"
  by pat_completeness auto
termination
proof (relation "measure (\<lambda>(env, retryCount). MAX_RETRIES - retryCount)")
  fix env :: env and retryCount :: nat and ms :: jsnum
  assume "try_block env retryCount = Retry ms"
  then have "retryCount < MAX_RETRIES"
    by (auto simp: try_block_def not_ok_def split: sum.splits promise.splits if_splits)
  then show "((env, retryCount + 1), (env, retryCount))
      \<in> measure (\<lambda>(env, retryCount). MAX_RETRIES - retryCount)"
    by simp
qed auto


text \<open>The user interface calls \<open>generateImage()\<close>: the retry count starts at its
  default 0. \<open>trace\<close> is everything that call does, in order.\<close>

definition events :: "event list \<times> event list \<Rightarrow> event list" where
  "events g = fst g @ snd g"

definition trace :: "env \<Rightarrow> event list" where
  "trace env = events (generateImage env 0)"

subsection \<open>The state the events act on\<close>

text \<open>The component's state (\<open>loading\<close>, \<open>generatedImage\<close>) and the store's table.\<close>

record world =
  loading :: bool
  generatedImage :: "jsstring option"
  images_table :: "image_row list"

fun apply_event :: "env \<Rightarrow> world \<Rightarrow> event \<Rightarrow> world" where
  "apply_event env w (Set_loading b) = w\<lparr>loading := b\<rparr>"
| "apply_event env w (Set_generated_image d) = w\<lparr>generatedImage := d\<rparr>"
| "apply_event env w (Insert v) = w\<lparr>images_table := insert_images env v (images_table w)\<rparr>"
| "apply_event env w e = w"

definition run :: "env \<Rightarrow> world \<Rightarrow> world" where
  "run env w = foldl (apply_event env) w (trace env)"

text \<open>\<open>saveImage\<close> called on its own, and its effect on the state.\<close>

definition run_save :: "env \<Rightarrow> jsstring option \<Rightarrow> jsstring \<Rightarrow> world \<Rightarrow> world" where
  "run_save env imageUrl p w = foldl (apply_event env) w (saveImage env imageUrl p)"

text \<open>What the claims count in a trace.\<close>

fun is_fetch :: "event \<Rightarrow> bool" where
  "is_fetch (Fetch q) = True"
| "is_fetch e = False"

fun is_delay :: "event \<Rightarrow> bool" where
  "is_delay (Delay ms) = True"
| "is_delay e = False"

fun is_insert :: "event \<Rightarrow> bool" where
  "is_insert (Insert v) = True"
| "is_insert e = False"

fun is_toast :: "event \<Rightarrow> bool" where
  "is_toast (Toast_error m) = True"
| "is_toast (Toast_success m) = True"
| "is_toast e = False"

fun is_display :: "event \<Rightarrow> bool" where
  "is_display (Set_generated_image d) = True"
| "is_display e = False"

text \<open>The events that notify the user, show an image or reach the store, as opposed to
  the bookkeeping of an attempt.\<close>

fun notable :: "event \<Rightarrow> bool" where
  "notable (Set_loading b) = False"
| "notable (Fetch q) = False"
| "notable (Delay ms) = False"
| "notable Console_error = False"
| "notable e = True"

text \<open>The call of the user interface returns: it is not left at an \<open>await\<close> that never
  returns.\<close>

definition returns :: "env \<Rightarrow> bool" where
  "returns env \<longleftrightarrow> Awaits_forever \<notin> set (trace env)"

text \<open>The three checks of lines 57 to 70 all pass.\<close>

definition guards_pass :: "env \<Rightarrow> bool" where
  "guards_pass env \<longleftrightarrow> user env \<noteq> None \<and> trim (prompt env) \<noteq> [] \<and> hf env \<noteq> None"

text \<open>How a run ends, read off its notifications: a failure shows exactly one error
  and nothing else; a success ends with the success notification of line 135.\<close>

definition terminal_failure :: "event list \<Rightarrow> bool" where
  "terminal_failure ev =
     (case filter notable ev of [Toast_error m] \<Rightarrow> True | _ \<Rightarrow> False)"

definition generated_successfully :: event where
  "generated_successfully = Toast_success (js ''Image generated successfully!'')"

definition terminal_success :: "event list \<Rightarrow> bool" where
  "terminal_success ev \<longleftrightarrow>
     filter is_toast ev \<noteq> [] \<and> last (filter is_toast ev) = generated_successfully"

section \<open>The gallery (\<open>Profile.loadImages\<close>)\<close>

text \<open>
  The query of lines 292 to 296 against the store: the policy "Users can read their
  own images" keeps the rows with \<open>auth.uid() = user_id\<close>, \<open>.eq('user_id', user.id)\<close>
  those of the user, and \<open>.order('created_at', {ascending: false})\<close> sorts them, the
  latest first.
\<close>

definition select_images :: "env \<Rightarrow> image_row list \<Rightarrow> jsstring \<Rightarrow> pg_error + image_row list" where
  "select_images env table u =
     (if \<not> store_reachable env then Inl Store_unreachable
      else Inr (rev (sort_key created_at
             (filter (\<lambda>r. user_id r = u) (filter (\<lambda>r. auth_uid env = Some (user_id r)) table)))))"

record profile =
  images :: "image_row list"
  profile_loading :: bool

definition loadImages :: "env \<Rightarrow> image_row list \<Rightarrow> profile \<Rightarrow> profile" where
  "loadImages env table p =
     (case user env of
        None \<Rightarrow> p\<lparr>profile_loading := False\<rparr>
      | Some u \<Rightarrow>
          (case select_images env table (uid u) of
             Inl e \<Rightarrow> p
           | Inr data \<Rightarrow> p\<lparr>images := data, profile_loading := False\<rparr>))"


section \<open>Concrete environments\<close>

text \<open>A signed-in user with the prompt \<open>cat\<close>, a configured key, a store that accepts
  the user's rows, and an upstream that never answers; the other environments vary it.\<close>

definition empty_world :: world where
  "empty_world = \<lparr>loading = False, generatedImage = None, images_table = []\<rparr>"

definition silent :: "nat \<Rightarrow> attempt" where
  "silent k = \<lparr>network = Never, random_seed = 0\<rparr>"

definition base_env :: env where
  "base_env =
     \<lparr>user = Some \<lparr>uid = js ''u1''\<rparr>, prompt = js ''cat'', api_key = Some (js ''key''),
      upstream = silent, stringify = (\<lambda>v. js ''{}''),
      abort_message = js ''The operation was aborted.'',
      type_error_message = (\<lambda>v. js ''not a function''),
      auth_uid = Some (js ''u1''), store_reachable = True, new_id = js ''id1'', now = 100\<rparr>"

definition signed_out_env :: env where
  "signed_out_env = base_env\<lparr>user := None\<rparr>"

definition signed_out_blank_env :: env where
  "signed_out_blank_env = base_env\<lparr>user := None, prompt := [0x20, 0x09, 0xA0]\<rparr>"

definition blank_env :: env where
  "blank_env = base_env\<lparr>prompt := [0x20, 0x09, 0xA0]\<rparr>"

definition no_key_env :: env where
  "no_key_env = base_env\<lparr>api_key := None\<rparr>"

definition signed_out_no_key_env :: env where
  "signed_out_no_key_env = base_env\<lparr>user := None, api_key := None\<rparr>"

subsection \<open>Upstream behaviours\<close>




fun timed_out :: "network \<Rightarrow> bool" where
  "timed_out Never = True"
| "timed_out (Arrives t r) = (FETCH_TIMEOUT < t)"
| "timed_out (Fails t e) = (FETCH_TIMEOUT < t)"

subsection \<open>Responses, environments and rows\<close>

definition body_used :: thrown where
  "body_used = Error_obj (js ''TypeError'') (js ''body stream already read'')"



definition rate_response :: response where
  "rate_response =
     \<lparr>status = 429, retry_after = Some (js ''7''),
      json_result = Fulfilled (JObject [(js ''error'', JString (js ''Rate limit reached''))]),
      text_result = Rejected body_used, blob_result = Rejected body_used\<rparr>"




definition ok_response :: response where
  "ok_response =
     \<lparr>status = 200, retry_after = None, json_result = Rejected body_used, text_result = Rejected body_used,
      blob_result = Fulfilled (Blob (Some (js ''data:image/png;base64,AA'')))\<rparr>"

definition second_try_env :: env where
  "second_try_env =
     base_env\<lparr>upstream := (\<lambda>k.
       \<lparr>network = Arrives 120 (if k = 0 then rate_response else ok_response), random_seed = k\<rparr>)\<rparr>"

definition store_down_env :: env where
  "store_down_env = second_try_env\<lparr>store_reachable := False\<rparr>"

definition other_row :: image_row where
  "other_row = \<lparr>row_id = js ''r0'', user_id = js ''u2'', image_url = js ''data:a'',
                 row_prompt = js ''dog'', created_at = 7\<rparr>"

definition old_row :: image_row where
  "old_row = \<lparr>row_id = js ''r1'', user_id = js ''u1'', image_url = js ''data:b'',
               row_prompt = js ''cat'', created_at = 5\<rparr>"

definition recent_row :: image_row where
  "recent_row = \<lparr>row_id = js ''r2'', user_id = js ''u1'', image_url = js ''data:c'',
                  row_prompt = js ''owl'', created_at = 9\<rparr>"

definition empty_profile :: profile where
  "empty_profile = \<lparr>images = [], profile_loading = True\<rparr>"

definition stalled_response :: response where
  "stalled_response =
     \<lparr>status = 200, retry_after = None, json_result = Pending, text_result = Pending,
      blob_result = Pending\<rparr>"

definition stalled_env :: env where
  "stalled_env = base_env\<lparr>upstream := (\<lambda>k. \<lparr>network = Arrives 120 stalled_response, random_seed = k\<rparr>)\<rparr>"

definition network_error :: thrown where
  "network_error =
     Error_obj (js ''TypeError'') (js ''NetworkError when attempting to fetch resource.'')"

definition unreachable_env :: env where
  "unreachable_env = base_env\<lparr>upstream := (\<lambda>k. \<lparr>network = Fails 40 network_error, random_seed = k\<rparr>)\<rparr>"

definition text_429_response :: response where
  "text_429_response =
     \<lparr>status = 429, retry_after = Some (js ''7''),
      json_result = Rejected (Error_obj (js ''SyntaxError'') (js ''Unexpected token'')),
      text_result = Rejected body_used, blob_result = Rejected body_used\<rparr>"

definition text_429_env :: env where
  "text_429_env =
     base_env\<lparr>upstream := (\<lambda>k. \<lparr>network = Arrives 120 text_429_response, random_seed = k\<rparr>)\<rparr>"

section \<open>The steps of \<open>generateImage\<close>\<close>

text \<open>The defining equation is unfolded one attempt at a time.\<close>

declare generateImage.simps [simp del]


lemma try_block_Retry: "try_block env retryCount = Retry ms \<Longrightarrow> retryCount < MAX_RETRIES"
  by (auto simp: try_block_def not_ok_def split: sum.splits promise.splits if_splits)

lemma gen_retry:
  "guards_pass env \<Longrightarrow> try_block env rc = Retry ms \<Longrightarrow>
   generateImage env rc =
     ([Set_loading True, Fetch (request_of env rc)],
      Delay ms # resubmit (generateImage env (rc + 1)))"
  by (subst generateImage.simps) (simp add: guards_pass_def)

lemma gen_complete:
  "guards_pass env \<Longrightarrow> try_block env rc = Completes b \<Longrightarrow>
   generateImage env rc =
     ([Set_loading True, Fetch (request_of env rc)], Set_loading False # reader_handlers env b)"
  by (subst generateImage.simps) (simp add: guards_pass_def)

lemma gen_hangs:
  "guards_pass env \<Longrightarrow> try_block env rc = Hangs \<Longrightarrow>
   generateImage env rc =
     ([Set_loading True, Fetch (request_of env rc)], [Awaits_forever])"
  by (subst generateImage.simps) (simp add: guards_pass_def)

lemma gen_throw_retry:
  "guards_pass env \<Longrightarrow> try_block env rc = Throws e \<Longrightarrow> transport_failure e \<Longrightarrow>
   rc < MAX_RETRIES \<Longrightarrow>
   generateImage env rc =
     ([Set_loading True, Fetch (request_of env rc)],
      Console_error # Delay RETRY_DELAY # resubmit (generateImage env (rc + 1)))"
  by (subst generateImage.simps) (simp add: guards_pass_def)

lemma gen_throw_report:
  "guards_pass env \<Longrightarrow> try_block env rc = Throws e \<Longrightarrow>
   \<not> (transport_failure e \<and> rc < MAX_RETRIES) \<Longrightarrow>
   generateImage env rc =
     ([Set_loading True, Fetch (request_of env rc)],
      [Console_error, Toast_error (errorMessage e), Set_loading False])"
  by (subst generateImage.simps) (simp add: guards_pass_def)

lemma gen_refused:
  "\<not> guards_pass env \<Longrightarrow>
   generateImage env rc =
     ([Toast_error
        (if user env = None then js ''Please sign in to generate images''
         else if trim (prompt env) = [] then js ''Please enter a prompt''
         else js ''API client is not properly initialized'')], [])"
  by (subst generateImage.simps) (auto simp: guards_pass_def)


lemma gen_fst:
  "guards_pass env \<Longrightarrow>
   fst (generateImage env rc) = [Set_loading True, Fetch (request_of env rc)]"
  by (subst generateImage.simps) (simp add: guards_pass_def)


lemma generateImage_events_induct [case_names refused hangs completes reports retries]:
  assumes refused: "\<And>rc. \<not> guards_pass env \<Longrightarrow> P rc (events (generateImage env rc))"
    and hangs: "\<And>rc. guards_pass env \<Longrightarrow> try_block env rc = Hangs \<Longrightarrow>
        P rc [Set_loading True, Fetch (request_of env rc), Awaits_forever]"
    and completes: "\<And>rc b. guards_pass env \<Longrightarrow> try_block env rc = Completes b \<Longrightarrow>
        P rc ([Set_loading True, Fetch (request_of env rc), Set_loading False]
              @ reader_handlers env b)"
    and reports: "\<And>rc e. guards_pass env \<Longrightarrow> try_block env rc = Throws e \<Longrightarrow>
        \<not> (transport_failure e \<and> rc < MAX_RETRIES) \<Longrightarrow>
        P rc [Set_loading True, Fetch (request_of env rc), Console_error,
              Toast_error (errorMessage e), Set_loading False]"
    and retries: "\<And>rc mid ms rest. guards_pass env \<Longrightarrow> rc < MAX_RETRIES \<Longrightarrow>
        mid = [] \<or> mid = [Console_error] \<Longrightarrow>
        P (rc + 1) ([Set_loading True, Fetch (request_of env (rc + 1))] @ rest) \<Longrightarrow>
        P rc ([Set_loading True, Fetch (request_of env rc)] @ mid
              @ [Delay ms, Set_loading True, Fetch (request_of env (rc + 1)), Set_loading False]
              @ rest)"
  shows "P rc (events (generateImage env rc))"
proof (induction "MAX_RETRIES - rc" arbitrary: rc rule: less_induct)
  case less
  show ?case
  proof (cases "guards_pass env")
    case False
    then show ?thesis by (rule refused)
  next
    case g: True
    have inner: "generateImage env (rc + 1) =
        ([Set_loading True, Fetch (request_of env (rc + 1))], snd (generateImage env (rc + 1)))"
      using gen_fst [OF g, of "rc + 1"] by (metis prod.collapse)
    show ?thesis
    proof (cases "try_block env rc")
      case Hangs
      with hangs [OF g Hangs] show ?thesis
        by (simp add: gen_hangs [OF g Hangs] events_def)
    next
      case (Completes b)
      with completes [OF g Completes] show ?thesis
        by (simp add: gen_complete [OF g Completes] events_def)
    next
      case (Retry ms)
      then have lt: "rc < MAX_RETRIES" by (rule try_block_Retry)
      have "P (rc + 1) (events (generateImage env (rc + 1)))"
        using lt by (intro less) simp
      then have "P (rc + 1) ([Set_loading True, Fetch (request_of env (rc + 1))]
          @ snd (generateImage env (rc + 1)))"
        by (subst (asm) inner) (simp add: events_def)
      from retries [OF g lt _ this, of "[]" ms] show ?thesis
        by (simp add: gen_retry [OF g Retry] events_def resubmit_def gen_fst [OF g])
    next
      case (Throws e)
      show ?thesis
      proof (cases "transport_failure e \<and> rc < MAX_RETRIES")
        case False
        with reports [OF g Throws] show ?thesis
          by (simp add: gen_throw_report [OF g Throws] events_def)
      next
        case True
        then have tf: "transport_failure e" and lt: "rc < MAX_RETRIES" by simp_all
        have "P (rc + 1) (events (generateImage env (rc + 1)))"
          using lt by (intro less) simp
        then have "P (rc + 1) ([Set_loading True, Fetch (request_of env (rc + 1))]
            @ snd (generateImage env (rc + 1)))"
          by (subst (asm) inner) (simp add: events_def)
        from retries [OF g lt _ this, of "[Console_error]" RETRY_DELAY] show ?thesis
          by (simp add: gen_throw_retry [OF g Throws tf lt] events_def resubmit_def gen_fst [OF g])
      qed
    qed
  qed
qed

lemma saveImage_no_fetch: "filter is_fetch (saveImage env d p) = []"
  by (simp add: saveImage_def Let_def split: option.splits)

lemma reader_handlers_no_fetch: "filter is_fetch (reader_handlers env b) = []"
  by (simp add: reader_handlers_def saveImage_no_fetch split: option.splits)

lemma saveImage_no_delay: "filter is_delay (saveImage env d p) = []"
  by (simp add: saveImage_def Let_def split: option.splits)

lemma reader_handlers_no_delay: "filter is_delay (reader_handlers env b) = []"
  by (simp add: reader_handlers_def saveImage_no_delay split: option.splits)

lemma fetch_bound:
  "length (filter is_fetch (events (generateImage env rc))) \<le> Suc (MAX_RETRIES - rc)"
proof (induction rc rule: generateImage_events_induct [where env = env])
  case (refused rc)
  then show ?case by (simp add: gen_refused events_def)
next
  case (hangs rc)
  then show ?case by simp
next
  case (completes rc b)
  then show ?case by (simp add: reader_handlers_no_fetch)
next
  case (reports rc e)
  then show ?case by simp
next
  case (retries rc mid ms rest)
  then show ?case by auto
qed

lemma delay_bound:
  "length (filter is_delay (events (generateImage env rc))) \<le> MAX_RETRIES - rc"
proof (induction rc rule: generateImage_events_induct [where env = env])
  case (refused rc)
  then show ?case by (simp add: gen_refused events_def)
next
  case (hangs rc)
  then show ?case by simp
next
  case (completes rc b)
  then show ?case by (simp add: reader_handlers_no_delay)
next
  case (reports rc e)
  then show ?case by simp
next
  case (retries rc mid ms rest)
  then show ?case by auto
qed


lemma saveImage_notable:
  "filter notable (saveImage env d p) =
     (case user env of
        None \<Rightarrow> [Toast_error (js ''Please sign in to save images'')]
      | Some u \<Rightarrow>
          [Insert \<lparr>new_user_id = uid u, new_image_url = d, new_prompt = p\<rparr>,
           (case insert_error env \<lparr>new_user_id = uid u, new_image_url = d, new_prompt = p\<rparr> of
              Some e \<Rightarrow> Toast_error (js ''Failed to save image'')
            | None \<Rightarrow> Toast_success (js ''Image saved to your gallery!''))])"
  by (simp add: saveImage_def Let_def split: option.splits)

lemma reader_handlers_notable:
  "filter notable (reader_handlers env b) =
     (case data_url b of
        None \<Rightarrow> [Uncaught (Error_obj (js ''Error'') (js ''Failed to process the generated image''))]
      | Some d \<Rightarrow> [])
     @ Set_generated_image (data_url b)
     # filter notable (saveImage env (data_url b) (prompt env))
     @ [generated_successfully]"
  by (simp add: reader_handlers_def generated_successfully_def split: option.splits)

lemma run_shape:
  "filter notable (events (generateImage env rc)) = [Awaits_forever] \<or>
   (\<exists>m. filter notable (events (generateImage env rc)) = [Toast_error m]) \<or>
   (\<exists>b. filter notable (events (generateImage env rc)) = filter notable (reader_handlers env b))"
proof (induction rc rule: generateImage_events_induct [where env = env])
  case (refused rc)
  then show ?case by (simp add: gen_refused events_def)
next
  case (hangs rc)
  then show ?case by simp
next
  case (completes rc b)
  then show ?case by auto
next
  case (reports rc e)
  then show ?case by simp
next
  case (retries rc mid ms rest)
  then show ?case by auto
qed

lemma fetch_inputs:
  "list_all (\<lambda>e. case e of Fetch q \<Rightarrow> inputs q = enhancedPrompt env | _ \<Rightarrow> True)
     (events (generateImage env rc))"
proof (induction rc rule: generateImage_events_induct [where env = env])
  case (refused rc)
  then show ?case by (simp add: gen_refused events_def)
next
  case (hangs rc)
  then show ?case by (simp add: request_of_def)
next
  case (completes rc b)
  then show ?case
    by (simp add: request_of_def reader_handlers_def saveImage_def Let_def split: option.splits)
next
  case (reports rc e)
  then show ?case by (simp add: request_of_def)
next
  case (retries rc mid ms rest)
  then show ?case by (auto simp: request_of_def)
qed

lemma toast_notable: "filter is_toast (filter notable ev) = filter is_toast ev"
  by (induction ev) (auto elim: is_toast.elims)

lemma insert_notable: "filter is_insert (filter notable ev) = filter is_insert ev"
  by (induction ev) (auto elim: is_insert.elims)

lemma display_notable: "filter is_display (filter notable ev) = filter is_display ev"
  by (induction ev) (auto elim: is_display.elims)

lemma fold_notable:
  "generatedImage w = generatedImage w' \<Longrightarrow> images_table w = images_table w' \<Longrightarrow>
   generatedImage (foldl (apply_event env) w ev) =
     generatedImage (foldl (apply_event env) w' (filter notable ev)) \<and>
   images_table (foldl (apply_event env) w ev) =
     images_table (foldl (apply_event env) w' (filter notable ev))"
proof (induction ev arbitrary: w w')
  case Nil
  then show ?case by simp
next
  case (Cons e ev)
  show ?case
  proof (cases "notable e")
    case True
    have "generatedImage (apply_event env w e) = generatedImage (apply_event env w' e)"
      and "images_table (apply_event env w e) = images_table (apply_event env w' e)"
      using Cons.prems by (cases e; simp)+
    from Cons.IH [OF this] True show ?thesis by simp
  next
    case False
    have "generatedImage (apply_event env w e) = generatedImage w'"
      and "images_table (apply_event env w e) = images_table w'"
      using Cons.prems False by (cases e; simp)+
    from Cons.IH [OF this] False show ?thesis by simp
  qed
qed

lemma terminal:
  "Awaits_forever \<in> set (events (generateImage env rc)) \<or>
   terminal_failure (events (generateImage env rc)) \<or>
   terminal_success (events (generateImage env rc))"
proof -
  let ?ev = "events (generateImage env rc)"
  from run_shape [of env rc] consider
      "filter notable ?ev = [Awaits_forever]"
    | m where "filter notable ?ev = [Toast_error m]"
    | b where "filter notable ?ev = filter notable (reader_handlers env b)"
    by blast
  then show ?thesis
  proof cases
    case 1
    then have "Awaits_forever \<in> set (filter notable ?ev)" by simp
    then show ?thesis by simp
  next
    case 2
    then show ?thesis by (simp add: terminal_failure_def)
  next
    case 3
    have "filter is_toast ?ev = filter is_toast (filter notable (reader_handlers env b))"
      using 3 toast_notable [of ?ev] by simp
    then show ?thesis
      by (simp add: terminal_success_def reader_handlers_notable generated_successfully_def)
  qed
qed


lemma trim_empty_iff: "trim s = [] \<longleftrightarrow> list_all is_white_space s"
proof -
  have "trim s = [] \<longleftrightarrow> (\<forall>c\<in>set (dropWhile is_white_space s). is_white_space c)"
    by (simp add: trim_def dropWhile_eq_Nil_conv)
  also have "\<dots> \<longleftrightarrow> dropWhile is_white_space s = []"
  proof
    assume a: "\<forall>c\<in>set (dropWhile is_white_space s). is_white_space c"
    show "dropWhile is_white_space s = []"
    proof (rule ccontr)
      assume n: "dropWhile is_white_space s \<noteq> []"
      then have "\<not> is_white_space (hd (dropWhile is_white_space s))"
        by (rule hd_dropWhile)
      moreover from n have "hd (dropWhile is_white_space s) \<in> set (dropWhile is_white_space s)"
        by simp
      ultimately show False using a by blast
    qed
  next
    assume "dropWhile is_white_space s = []"
    then show "\<forall>c\<in>set (dropWhile is_white_space s). is_white_space c"
      by (simp only: set_simps ball_empty)
  qed
  also have "\<dots> \<longleftrightarrow> list_all is_white_space s"
    by (simp add: dropWhile_eq_Nil_conv list_all_iff)
  finally show ?thesis .
qed

lemma hf_None_iff: "hf env = None \<longleftrightarrow> api_key env = None \<or> api_key env = Some []"
  by (auto simp: hf_def module_init_def split: option.splits)

lemma run_refused: "\<not> guards_pass env \<Longrightarrow> run env w = w"
  by (simp add: run_def trace_def events_def gen_refused)

lemma try_block_not_ok:
  "fetch_result env (network (upstream env rc)) = Inr r \<Longrightarrow> \<not> ok r \<Longrightarrow>
   error_data r = Fulfilled d \<Longrightarrow> cuda_out_of_memory env d = Inr c \<Longrightarrow>
   try_block env rc =
     (if c \<and> rc < MAX_RETRIES then Retry RETRY_DELAY
      else if status r = 429 \<and> rc < MAX_RETRIES then Retry (times_1000 (retryAfter r))
      else Throws (api_request_failed env d))"
  by (simp add: try_block_def not_ok_def)

lemma status_429_not_ok: "status r = 429 \<Longrightarrow> \<not> ok r"
  by (simp add: ok_def)

lemma guards_base [simp]:
  "guards_pass (base_env\<lparr>upstream := f\<rparr>)"
  by (simp add: guards_pass_def base_env_def trim_def js_def is_white_space_def hf_def module_init_def)

lemma error_data_not_null: "error_data r = Fulfilled d \<Longrightarrow> d \<noteq> JNull"
  by (auto simp: error_data_def response_text_def split: promise.splits if_splits)



lemma four_attempts:
  assumes g: "guards_pass env"
    and a0: "snd (generateImage env 0) = mid0 @ Delay ms0 # resubmit (generateImage env (Suc 0))"
    and a1: "snd (generateImage env (Suc 0))
               = mid1 @ Delay ms1 # resubmit (generateImage env (Suc (Suc 0)))"
    and a2: "snd (generateImage env (Suc (Suc 0)))
               = mid2 @ Delay ms2 # resubmit (generateImage env (Suc (Suc (Suc 0))))"
    and a3: "snd (generateImage env (Suc (Suc (Suc 0))))
               = [Console_error, Toast_error m, Set_loading False]"
  shows "trace env =
    [Set_loading True, Fetch (request_of env 0)] @ mid0 @
    [Delay ms0, Set_loading True, Fetch (request_of env 1), Set_loading False] @ mid1 @
    [Delay ms1, Set_loading True, Fetch (request_of env 2), Set_loading False] @ mid2 @
    [Delay ms2, Set_loading True, Fetch (request_of env 3), Set_loading False,
     Console_error, Toast_error m, Set_loading False]"
  using a0 a1 a2 a3
  by (simp add: trace_def events_def resubmit_def gen_fst [OF g] eval_nat_numeral)



lemma rate_response_data:
  "error_data (rate_response\<lparr>retry_after := h\<rparr>)
     = Fulfilled (JObject [(js ''error'', JString (js ''Rate limit reached''))])"
  by (simp add: error_data_def rate_response_def)

lemma rate_response_no_cuda:
  "cuda_out_of_memory env (JObject [(js ''error'', JString (js ''Rate limit reached''))]) = Inr False"
  by (simp add: cuda_out_of_memory_def js_def)

lemma timed_out_aborts: "timed_out n \<Longrightarrow> fetch_result env n = Inl (abort_error env)"
  by (cases n) (simp_all add: fetch_result_def)

lemma abort_is_transport_failure: "transport_failure (abort_error env)"
  by (simp add: abort_error_def)

lemma try_block_rejected:
  "fetch_result env (network (upstream env rc)) = Inl e \<Longrightarrow> try_block env rc = Throws e"
  by (simp add: try_block_def)

lemma success_shape:
  assumes "generated_successfully \<in> set (trace env)"
  shows "\<exists>b. filter notable (trace env) = filter notable (reader_handlers env b)"
proof -
  from assms have in_notable: "generated_successfully \<in> set (filter notable (trace env))"
    by (simp add: generated_successfully_def)
  from run_shape [of env 0] consider
      "filter notable (trace env) = [Awaits_forever]"
    | m where "filter notable (trace env) = [Toast_error m]"
    | b where "filter notable (trace env) = filter notable (reader_handlers env b)"
    unfolding trace_def by blast
  then show ?thesis
  proof cases
    case 1
    from in_notable have False
      unfolding 1 by (simp add: generated_successfully_def)
    then show ?thesis ..
  next
    case 2
    from in_notable have False
      unfolding 2 by (simp add: generated_successfully_def)
    then show ?thesis ..
  next
    case 3
    then show ?thesis ..
  qed
qed

lemma insert_shape:
  assumes "Insert v \<in> set (trace env)"
  shows "\<exists>b. filter notable (trace env) = filter notable (reader_handlers env b)"
proof -
  from assms have in_notable: "Insert v \<in> set (filter notable (trace env))"
    by simp
  from run_shape [of env 0] consider
      "filter notable (trace env) = [Awaits_forever]"
    | m where "filter notable (trace env) = [Toast_error m]"
    | b where "filter notable (trace env) = filter notable (reader_handlers env b)"
    unfolding trace_def by blast
  then show ?thesis
  proof cases
    case 1
    from in_notable have False
      unfolding 1 by simp
    then show ?thesis ..
  next
    case 2
    from in_notable have False
      unfolding 2 by simp
    then show ?thesis ..
  next
    case 3
    then show ?thesis ..
  qed
qed

lemma handlers_signed_in:
  "user env = Some u \<Longrightarrow>
   filter notable (reader_handlers env b) =
     (case data_url b of
        None \<Rightarrow> [Uncaught (Error_obj (js ''Error'') (js ''Failed to process the generated image''))]
      | Some d \<Rightarrow> [])
     @ [Set_generated_image (data_url b),
        Insert \<lparr>new_user_id = uid u, new_image_url = data_url b, new_prompt = prompt env\<rparr>,
        (case insert_error env
                \<lparr>new_user_id = uid u, new_image_url = data_url b, new_prompt = prompt env\<rparr> of
           Some e \<Rightarrow> Toast_error (js ''Failed to save image'')
         | None \<Rightarrow> Toast_success (js ''Image saved to your gallery!'')),
        generated_successfully]"
  by (simp add: reader_handlers_notable saveImage_notable)

lemma run_notable:
  "generatedImage (run env w) = generatedImage (foldl (apply_event env) w (filter notable (trace env)))"
  "images_table (run env w) = images_table (foldl (apply_event env) w (filter notable (trace env)))"
  using fold_notable [of w w env "trace env"] by (simp_all add: run_def)

lemma success_world:
  assumes u: "user env = Some u"
    and s: "filter notable (trace env) = filter notable (reader_handlers env b)"
  shows "generatedImage (run env w) = data_url b"
    and "images_table (run env w) =
      insert_images env \<lparr>new_user_id = uid u, new_image_url = data_url b, new_prompt = prompt env\<rparr>
        (images_table w)"
  by (simp_all add: run_notable s handlers_signed_in [OF u] generated_successfully_def
      split: option.splits)

lemma insert_images_accepted:
  "insert_error env v = None \<Longrightarrow>
   \<exists>url. new_image_url v = Some url \<and>
     insert_images env v table =
       table @ [\<lparr>row_id = new_id env, user_id = new_user_id v, image_url = url,
                  row_prompt = new_prompt v, created_at = now env\<rparr>]"
  by (cases "new_image_url v") (auto simp: insert_images_def insert_error_def split: if_splits)

lemma insert_images_refused: "insert_error env v = Some e \<Longrightarrow> insert_images env v table = table"
  by (simp add: insert_images_def)

lemma rate_then_ok_trace:
  assumes up: "upstream env = (\<lambda>k.
       \<lparr>network = Arrives 120 (if k = 0 then rate_response else ok_response), random_seed = k\<rparr>)"
    and g: "guards_pass env"
  shows "trace env =
    [Set_loading True, Fetch (request_of env 0), Delay (Fin 7000),
     Set_loading True, Fetch (request_of env 1), Set_loading False, Set_loading False]
    @ reader_handlers env (Blob (Some (js ''data:image/png;base64,AA'')))"
proof -
  have f0: "fetch_result env (network (upstream env 0)) = Inr rate_response"
    by (simp add: up fetch_result_def FETCH_TIMEOUT_def)
  have st: "status rate_response = 429" by (simp add: rate_response_def)
  have "try_block env 0 = Retry (Fin 7000)"
    using try_block_not_ok [OF f0 status_429_not_ok [OF st]
        rate_response_data [of "Some (js ''7'')", unfolded rate_response_def, simplified, folded rate_response_def]
        rate_response_no_cuda]
    by (simp add: MAX_RETRIES_def st retryAfter_def rate_response_def parseInt10_def Let_def js_def
        is_white_space_def is_digit_def digits_value_def to_double_def)
  from gen_retry [OF g this]
  have a0: "generateImage env 0 =
      ([Set_loading True, Fetch (request_of env 0)],
       Delay (Fin 7000) # resubmit (generateImage env (Suc 0)))"
    by simp
  have "try_block env (Suc 0) = Completes (Blob (Some (js ''data:image/png;base64,AA'')))"
    by (simp add: try_block_def up fetch_result_def FETCH_TIMEOUT_def ok_def ok_response_def)
  from gen_complete [OF g this]
  have a1: "generateImage env (Suc 0) =
      ([Set_loading True, Fetch (request_of env 1)],
       Set_loading False # reader_handlers env (Blob (Some (js ''data:image/png;base64,AA''))))"
    by simp
  show ?thesis
    by (simp add: trace_def events_def a0 a1 resubmit_def)
qed

lemma select_images_rows:
  "select_images env table u = Inr data \<Longrightarrow>
   mset data = filter_mset (\<lambda>r. user_id r = u \<and> auth_uid env = Some (user_id r)) (mset table)"
  by (auto simp: select_images_def conj_commute split: if_splits)

lemma select_images_owner:
  "select_images env table u = Inr data \<Longrightarrow> list_all (\<lambda>r. user_id r = u) data"
  by (auto simp: select_images_def list_all_iff split: if_splits)

lemma select_images_sorted:
  "select_images env table u = Inr data \<Longrightarrow>
   sorted_wrt (\<lambda>a b. created_at b \<le> created_at a) data"
proof -
  assume "select_images env table u = Inr data"
  then obtain xs where d: "data = rev (sort_key created_at xs)"
    by (auto simp: select_images_def split: if_splits)
  have "sorted (map created_at (sort_key created_at xs))" by simp
  then have "sorted_wrt (\<lambda>a b. created_at a \<le> created_at b) (sort_key created_at xs)"
    by (simp only: sorted_map)
  then show ?thesis by (simp add: d sorted_wrt_rev)
qed






text \<open>What the \<open>fetch\<close> does when the network is late and what the \<open>catch\<close> block
  does with a rejection of the \<open>fetch\<close>: an error it takes for a transport failure (its
  name is \<open>AbortError\<close> or its message contains "Failed to fetch") is retried after
  2000 ms while the retry count is below \<open>MAX_RETRIES\<close>; any other error, and any
  error from \<open>MAX_RETRIES\<close> on, ends the attempt with the error's message.\<close>

lemma transport_failure_steps:
  "guards_pass env \<Longrightarrow>
     FETCH_TIMEOUT = 30000 \<and>
     (\<forall>n. timed_out n \<longrightarrow> fetch_result env n = Inl (abort_error env)) \<and>
     (\<forall>t r. t < FETCH_TIMEOUT \<longrightarrow> fetch_result env (Arrives t r) = Inr r) \<and>
     transport_failure (abort_error env) \<and>
     (\<forall>retryCount e.
        fetch_result env (network (upstream env retryCount)) = Inl e \<and>
        transport_failure e \<and> retryCount < MAX_RETRIES \<longrightarrow>
        generateImage env retryCount =
          ([Set_loading True, Fetch (request_of env retryCount)],
           Console_error # Delay (Fin 2000) # resubmit (generateImage env (retryCount + 1)))) \<and>
     (\<forall>retryCount e.
        fetch_result env (network (upstream env retryCount)) = Inl e \<and>
        \<not> (transport_failure e \<and> retryCount < MAX_RETRIES) \<longrightarrow>
        generateImage env retryCount =
          ([Set_loading True, Fetch (request_of env retryCount)],
           [Console_error, Toast_error (errorMessage e), Set_loading False])) \<and>
     ((\<forall>k. timed_out (network (upstream env k))) \<longrightarrow>
        filter (\<lambda>e. is_fetch e \<or> is_delay e) (trace env) =
          [Fetch (request_of env 0), Delay (Fin 2000),
           Fetch (request_of env 1), Delay (Fin 2000),
           Fetch (request_of env 2), Delay (Fin 2000),
           Fetch (request_of env 3)] \<and>
        filter notable (trace env) = [Toast_error (abort_message env)])"
proof (intro conjI allI impI; (elim conjE)?)
  show "FETCH_TIMEOUT = 30000" by (simp add: FETCH_TIMEOUT_def)
next
  fix n assume "timed_out n"
  then show "fetch_result env n = Inl (abort_error env)" by (rule timed_out_aborts)
next
  fix t r assume "t < FETCH_TIMEOUT"
  then show "fetch_result env (Arrives t r) = Inr r" by (simp add: fetch_result_def)
next
  show "transport_failure (abort_error env)" by (rule abort_is_transport_failure)
next
  fix retryCount e
  assume g: "guards_pass env"
    and f: "fetch_result env (network (upstream env retryCount)) = Inl e"
    and tf: "transport_failure e" and lt: "retryCount < MAX_RETRIES"
  from gen_throw_retry [OF g try_block_rejected [OF f] tf lt]
  show "generateImage env retryCount =
          ([Set_loading True, Fetch (request_of env retryCount)],
           Console_error # Delay (Fin 2000) # resubmit (generateImage env (retryCount + 1)))"
    by (simp add: RETRY_DELAY_def)
next
  fix retryCount e
  assume g: "guards_pass env"
    and f: "fetch_result env (network (upstream env retryCount)) = Inl e"
    and n: "\<not> (transport_failure e \<and> retryCount < MAX_RETRIES)"
  from gen_throw_report [OF g try_block_rejected [OF f] n]
  show "generateImage env retryCount =
          ([Set_loading True, Fetch (request_of env retryCount)],
           [Console_error, Toast_error (errorMessage e), Set_loading False])" .
next
  assume g: "guards_pass env" and all: "\<forall>k. timed_out (network (upstream env k))"
  have t: "try_block env k = Throws (abort_error env)" for k
    using all by (simp add: try_block_rejected timed_out_aborts)
  have step: "snd (generateImage env k) =
      [Console_error] @ Delay RETRY_DELAY # resubmit (generateImage env (Suc k))"
    if "k < MAX_RETRIES" for k
    using gen_throw_retry [OF g t abort_is_transport_failure that] by simp
  have "\<not> (transport_failure (abort_error env) \<and> Suc (Suc (Suc 0)) < MAX_RETRIES)"
    by (simp add: MAX_RETRIES_def)
  from gen_throw_report [OF g t this]
  have a3: "snd (generateImage env (Suc (Suc (Suc 0)))) =
      [Console_error, Toast_error (abort_message env), Set_loading False]"
    by (simp add: abort_error_def)
  have lt: "0 < MAX_RETRIES" "Suc 0 < MAX_RETRIES" "Suc (Suc 0) < MAX_RETRIES"
    by (simp_all add: MAX_RETRIES_def)
  note tr = four_attempts [OF g step [OF lt(1)] step [OF lt(2)] step [OF lt(3)] a3]
  show "filter (\<lambda>e. is_fetch e \<or> is_delay e) (trace env) =
          [Fetch (request_of env 0), Delay (Fin 2000),
           Fetch (request_of env 1), Delay (Fin 2000),
           Fetch (request_of env 2), Delay (Fin 2000),
           Fetch (request_of env 3)]"
    by (simp add: tr RETRY_DELAY_def)
  show "filter notable (trace env) = [Toast_error (abort_message env)]"
    by (simp add: tr)
qed

text \<open>What the code does with a 429 response whose body is not JSON: the second read
  of the body on line 102 is rejected, and the attempt ends with that error's message
  and no retry.\<close>

lemma text_429_not_retried:
  "status text_429_response = 429 \<and>
   trace text_429_env =
     [Set_loading True, Fetch (request_of text_429_env 0), Console_error,
      Toast_error (js ''body stream already read''), Set_loading False]"
proof -
  have g: "guards_pass text_429_env" by (simp add: text_429_env_def)
  have "try_block text_429_env 0 = Throws body_used"
    by (simp add: try_block_def not_ok_def error_data_def response_text_def text_429_env_def
        fetch_result_def FETCH_TIMEOUT_def ok_def text_429_response_def)
  moreover have "\<not> (transport_failure body_used \<and> 0 < MAX_RETRIES)"
    by (simp add: body_used_def js_def)
  ultimately show ?thesis
    using gen_throw_report [OF g, of 0 body_used]
    by (simp add: trace_def events_def body_used_def text_429_response_def)
qed

section \<open>Claims\<close>

text \<open>
  C5. With no signed-in user, \<open>generateImage\<close> (at any retry count) and \<open>saveImage\<close>
  only show their sign-in notification: no network call, no insert, and the state
  (loading flag, displayed image, table of the store) is what it was.
\<close>

theorem no_session_no_side_effects:
  "user env = None \<Longrightarrow>
     generateImage env retryCount = ([Toast_error (js ''Please sign in to generate images'')], []) \<and>
     trace env = [Toast_error (js ''Please sign in to generate images'')] \<and>
     run env w = w \<and>
     saveImage env imageUrl p = [Toast_error (js ''Please sign in to save images'')] \<and>
     run_save env imageUrl p w = w"
  by (simp add: gen_refused guards_pass_def trace_def events_def run_def run_save_def saveImage_def)

theorem no_session_no_side_effects_witness:
  "user signed_out_env = None \<and>
   generateImage signed_out_env 0 = ([Toast_error (js ''Please sign in to generate images'')], []) \<and>
   trace signed_out_env = [Toast_error (js ''Please sign in to generate images'')] \<and>
   run signed_out_env empty_world = empty_world \<and>
   saveImage signed_out_env (Some (js ''data:image/png;base64,AA'')) (js ''cat'')
     = [Toast_error (js ''Please sign in to save images'')] \<and>
   run_save signed_out_env (Some (js ''data:image/png;base64,AA'')) (js ''cat'') empty_world
     = empty_world"
proof -
  have h: "user signed_out_env = None"
    by (simp add: signed_out_env_def)
  from no_session_no_side_effects [OF h, of 0 empty_world "Some (js ''data:image/png;base64,AA'')" "js ''cat''"] h
  show ?thesis by simp
qed

text \<open>
  C4 (amended). For every prompt that is empty or consists only of white space,
  \<open>generateImage\<close> (at any retry count) returns after a single error notification,
  issues no network call and leaves the state as it was. The notification is
  "Please enter a prompt" when a user is signed in; with no user the sign-in check,
  which comes first, answers instead.
\<close>

theorem blank_prompt_refused:
  "list_all is_white_space (prompt env) \<Longrightarrow>
     generateImage env retryCount =
       ([Toast_error (if user env = None then js ''Please sign in to generate images''
                      else js ''Please enter a prompt'')], []) \<and>
     trace env =
       [Toast_error (if user env = None then js ''Please sign in to generate images''
                     else js ''Please enter a prompt'')] \<and>
     filter is_fetch (trace env) = [] \<and>
     run env w = w"
proof -
  assume "list_all is_white_space (prompt env)"
  then have t: "trim (prompt env) = []" by (simp add: trim_empty_iff)
  then have g: "\<not> guards_pass env" by (simp add: guards_pass_def)
  show ?thesis
    using t by (simp add: gen_refused [OF g] run_refused [OF g] trace_def events_def)
qed

text \<open>The theorem at a signed-in user whose prompt is a space, a tab and a no-break
  space.\<close>

theorem blank_prompt_refused_witness:
  "list_all is_white_space (prompt blank_env) \<and>
   trace blank_env = [Toast_error (js ''Please enter a prompt'')] \<and>
   filter is_fetch (trace blank_env) = [] \<and>
   run blank_env empty_world = empty_world"
proof -
  have h: "list_all is_white_space (prompt blank_env)"
    by (simp add: blank_env_def base_env_def is_white_space_def)
  have u: "user blank_env \<noteq> None"
    by (simp add: blank_env_def base_env_def)
  from blank_prompt_refused [OF h, of 0 empty_world] h u show ?thesis by simp
qed

text \<open>C4 as stated fails when nobody is signed in: the blank prompt is answered with
  the sign-in notification, not with the empty-prompt one.\<close>

theorem blank_prompt_signed_out_counterexample:
  "list_all is_white_space (prompt signed_out_blank_env) \<and>
   trace signed_out_blank_env = [Toast_error (js ''Please sign in to generate images'')] \<and>
   Toast_error (js ''Please enter a prompt'') \<notin> set (trace signed_out_blank_env)"
proof -
  have g: "\<not> guards_pass signed_out_blank_env"
    by (simp add: guards_pass_def signed_out_blank_env_def)
  have t: "trace signed_out_blank_env = [Toast_error (js ''Please sign in to generate images'')]"
    by (simp add: trace_def events_def gen_refused [OF g]) (simp add: signed_out_blank_env_def)
  have "js ''Please enter a prompt'' \<noteq> js ''Please sign in to generate images''"
    by (simp add: js_def)
  with t show ?thesis
    by (simp add: signed_out_blank_env_def base_env_def is_white_space_def)
qed

text \<open>
  C10 (amended). When the API key is absent (undefined or empty) the client \<open>hf\<close> is
  never constructed, and every call of \<open>generateImage\<close> returns after a single error
  notification with no network call and no change of state. For a signed-in user with a
  non-blank prompt the notification is "API client is not properly initialized", which
  differs from the messages the controller shows for an upstream failure; the sign-in
  and prompt checks come first and answer instead when they fail.
\<close>

theorem missing_api_key_refused:
  "api_key env = None \<or> api_key env = Some [] \<Longrightarrow>
     generateImage env retryCount =
       ([Toast_error
          (if user env = None then js ''Please sign in to generate images''
           else if trim (prompt env) = [] then js ''Please enter a prompt''
           else js ''API client is not properly initialized'')], []) \<and>
     filter is_fetch (trace env) = [] \<and>
     run env w = w \<and>
     js ''API client is not properly initialized'' \<noteq> errorMessage (api_request_failed env d) \<and>
     js ''API client is not properly initialized'' \<noteq> errorMessage Non_error"
proof -
  assume "api_key env = None \<or> api_key env = Some []"
  then have "hf env = None" by (simp add: hf_None_iff)
  then have g: "\<not> guards_pass env" by (simp add: guards_pass_def)
  have "js ''API client is not properly initialized'' \<noteq> js ''API request failed: '' @ x" for x
    by (simp add: js_def)
  moreover have "js ''API client is not properly initialized''
      \<noteq> js ''Failed to generate image. Please try again.''"
    by (simp add: js_def)
  ultimately show ?thesis
    by (simp add: gen_refused [OF g] run_refused [OF g] trace_def events_def api_request_failed_def)
qed

text \<open>The theorem at a signed-in user with the prompt \<open>cat\<close> and no key.\<close>

theorem missing_api_key_refused_witness:
  "api_key no_key_env = None \<and>
   generateImage no_key_env 0 =
     ([Toast_error (js ''API client is not properly initialized'')], []) \<and>
   filter is_fetch (trace no_key_env) = [] \<and>
   run no_key_env empty_world = empty_world"
proof -
  have h: "api_key no_key_env = None \<or> api_key no_key_env = Some []"
    by (simp add: no_key_env_def)
  have u: "user no_key_env \<noteq> None" "trim (prompt no_key_env) \<noteq> []"
    by (simp_all add: no_key_env_def base_env_def trim_def js_def is_white_space_def)
  have k: "api_key no_key_env = None"
    by (simp add: no_key_env_def)
  from missing_api_key_refused [OF h, of 0 empty_world] u k show ?thesis
    by simp
qed

text \<open>C10 as stated fails when nobody is signed in: the missing key is not reported,
  the sign-in notification is shown instead.\<close>

theorem missing_api_key_signed_out_counterexample:
  "api_key signed_out_no_key_env = None \<and>
   trace signed_out_no_key_env = [Toast_error (js ''Please sign in to generate images'')] \<and>
   Toast_error (js ''API client is not properly initialized'') \<notin> set (trace signed_out_no_key_env)"
proof -
  have g: "\<not> guards_pass signed_out_no_key_env"
    by (simp add: guards_pass_def signed_out_no_key_env_def)
  have t: "trace signed_out_no_key_env = [Toast_error (js ''Please sign in to generate images'')]"
    by (simp add: trace_def events_def gen_refused [OF g]) (simp add: signed_out_no_key_env_def)
  have "js ''API client is not properly initialized'' \<noteq> js ''Please sign in to generate images''"
    by (simp add: js_def)
  with t show ?thesis
    by (simp add: signed_out_no_key_env_def)
qed

text \<open>
  C7 (amended). In every run with a signed-in user that ends with the success
  notification, each network call of the run submits the prompt followed by the fixed
  style suffix, and exactly one insert is sent to the store: its \<open>user_id\<close> is the id of
  the signed-in user and its \<open>prompt\<close> is the prompt as typed, without the suffix. When
  the store accepts that insert, the table grows by exactly one row with these values.
\<close>

theorem successful_generation_saves_original_prompt:
  "user env = Some u \<Longrightarrow> generated_successfully \<in> set (trace env) \<Longrightarrow>
     list_all (\<lambda>e. case e of Fetch q \<Rightarrow> inputs q = prompt env @ style_suffix | _ \<Rightarrow> True)
       (trace env) \<and>
     (\<exists>d. filter is_insert (trace env) =
            [Insert \<lparr>new_user_id = uid u, new_image_url = d, new_prompt = prompt env\<rparr>] \<and>
          (insert_error env \<lparr>new_user_id = uid u, new_image_url = d, new_prompt = prompt env\<rparr> = None
           \<longrightarrow> (\<exists>url. d = Some url \<and>
                 images_table (run env w) =
                   images_table w @
                   [\<lparr>row_id = new_id env, user_id = uid u, image_url = url,
                      row_prompt = prompt env, created_at = now env\<rparr>])))"
proof -
  assume u: "user env = Some u" and ok: "generated_successfully \<in> set (trace env)"
  from success_shape [OF ok] obtain b
    where s: "filter notable (trace env) = filter notable (reader_handlers env b)" ..
  let ?v = "\<lparr>new_user_id = uid u, new_image_url = data_url b, new_prompt = prompt env\<rparr>"
  have "filter is_insert (trace env) = filter is_insert (filter notable (trace env))"
    by (simp only: insert_notable)
  also have "\<dots> = [Insert ?v]"
    by (simp add: s handlers_signed_in [OF u] generated_successfully_def
        split: option.splits)
  finally have ins: "filter is_insert (trace env) = [Insert ?v]" .
  have acc: "\<exists>url. data_url b = Some url \<and>
      images_table (run env w) =
        images_table w @
        [\<lparr>row_id = new_id env, user_id = uid u, image_url = url,
           row_prompt = prompt env, created_at = now env\<rparr>]"
    if "insert_error env ?v = None"
    using insert_images_accepted [OF that, of "images_table w"] success_world(2) [OF u s, of w]
    by simp
  have inp: "list_all (\<lambda>e. case e of Fetch q \<Rightarrow> inputs q = prompt env @ style_suffix | _ \<Rightarrow> True)
       (trace env)"
    using fetch_inputs [of env 0] unfolding trace_def enhancedPrompt_def .
  show ?thesis
  proof (intro conjI exI [of _ "data_url b"] impI)
    show "list_all (\<lambda>e. case e of Fetch q \<Rightarrow> inputs q = prompt env @ style_suffix | _ \<Rightarrow> True)
       (trace env)"
      by (rule inp)
    show "filter is_insert (trace env) = [Insert ?v]" by (rule ins)
    assume "insert_error env ?v = None"
    then show "\<exists>url. data_url b = Some url \<and>
      images_table (run env w) =
        images_table w @
        [\<lparr>row_id = new_id env, user_id = uid u, image_url = url,
           row_prompt = prompt env, created_at = now env\<rparr>]"
      by (rule acc)
  qed
qed

text \<open>
  The theorem at a run whose first attempt is answered 429 and whose second attempt
  succeeds, with a store that accepts the row.
\<close>

theorem successful_generation_saves_original_prompt_witness:
  "user second_try_env = Some \<lparr>uid = js ''u1''\<rparr> \<and>
   generated_successfully \<in> set (trace second_try_env) \<and>
   filter is_fetch (trace second_try_env) =
     [Fetch \<lparr>authorization = js ''Bearer key'', inputs = js ''cat'' @ style_suffix, seed = 0\<rparr>,
      Fetch \<lparr>authorization = js ''Bearer key'', inputs = js ''cat'' @ style_suffix, seed = 1\<rparr>] \<and>
   filter is_insert (trace second_try_env) =
     [Insert \<lparr>new_user_id = js ''u1'', new_image_url = Some (js ''data:image/png;base64,AA''),
              new_prompt = js ''cat''\<rparr>] \<and>
   insert_error second_try_env
     \<lparr>new_user_id = js ''u1'', new_image_url = Some (js ''data:image/png;base64,AA''),
      new_prompt = js ''cat''\<rparr> = None \<and>
   images_table (run second_try_env empty_world) =
     [\<lparr>row_id = js ''id1'', user_id = js ''u1'', image_url = js ''data:image/png;base64,AA'',
       row_prompt = js ''cat'', created_at = 100\<rparr>]"
proof -
  have u: "user second_try_env = Some \<lparr>uid = js ''u1''\<rparr>"
    by (simp add: second_try_env_def base_env_def)
  have g: "guards_pass second_try_env" by (simp add: second_try_env_def)
  have tr: "trace second_try_env =
    [Set_loading True, Fetch (request_of second_try_env 0), Delay (Fin 7000),
     Set_loading True, Fetch (request_of second_try_env 1), Set_loading False, Set_loading False]
    @ reader_handlers second_try_env (Blob (Some (js ''data:image/png;base64,AA'')))"
    by (rule rate_then_ok_trace [OF _ g]) (simp add: second_try_env_def)
  have ok: "generated_successfully \<in> set (trace second_try_env)"
    by (simp add: tr reader_handlers_def generated_successfully_def)
  have fields: "prompt second_try_env = js ''cat''" "new_id second_try_env = js ''id1''"
    "now second_try_env = 100" "api_key second_try_env = Some (js ''key'')"
    by (simp_all add: second_try_env_def base_env_def)
  have seeds: "random_seed (upstream second_try_env k) = k" for k
    by (simp add: second_try_env_def)
  have fetches: "filter is_fetch (trace second_try_env) =
     [Fetch \<lparr>authorization = js ''Bearer key'', inputs = js ''cat'' @ style_suffix, seed = 0\<rparr>,
      Fetch \<lparr>authorization = js ''Bearer key'', inputs = js ''cat'' @ style_suffix, seed = 1\<rparr>]"
    by (simp add: tr reader_handlers_no_fetch request_of_def enhancedPrompt_def fields seeds)
       (simp add: js_def)
  have acc: "insert_error second_try_env
     \<lparr>new_user_id = js ''u1'', new_image_url = Some (js ''data:image/png;base64,AA''),
      new_prompt = js ''cat''\<rparr> = None"
    by (simp add: insert_error_def second_try_env_def base_env_def)
  from successful_generation_saves_original_prompt [OF u ok, of empty_world]
  obtain d where
    ins: "filter is_insert (trace second_try_env) =
            [Insert \<lparr>new_user_id = js ''u1'', new_image_url = d, new_prompt = js ''cat''\<rparr>]"
    and row: "insert_error second_try_env
                \<lparr>new_user_id = js ''u1'', new_image_url = d, new_prompt = js ''cat''\<rparr> = None
       \<longrightarrow> (\<exists>url. d = Some url \<and>
             images_table (run second_try_env empty_world) =
               images_table empty_world @
               [\<lparr>row_id = js ''id1'', user_id = js ''u1'', image_url = url,
                  row_prompt = js ''cat'', created_at = 100\<rparr>])"
    by (auto simp: fields)
  have "filter is_insert (trace second_try_env) =
     [Insert \<lparr>new_user_id = js ''u1'', new_image_url = Some (js ''data:image/png;base64,AA''),
              new_prompt = js ''cat''\<rparr>]"
    by (simp add: tr reader_handlers_def saveImage_def u Let_def fields split: option.splits)
  with ins have d: "d = Some (js ''data:image/png;base64,AA'')" by simp
  from row acc have "images_table (run second_try_env empty_world) =
     [\<lparr>row_id = js ''id1'', user_id = js ''u1'', image_url = js ''data:image/png;base64,AA'',
       row_prompt = js ''cat'', created_at = 100\<rparr>]"
    by (simp add: d empty_world_def)
  with u ok fetches ins acc show ?thesis by (simp add: d)
qed

text \<open>
  C7 as stated fails when the store cannot be reached: the generation succeeds, the
  insert returns an error, and no record is created.
\<close>

theorem successful_generation_store_down_counterexample:
  "user store_down_env = Some \<lparr>uid = js ''u1''\<rparr> \<and>
   generated_successfully \<in> set (trace store_down_env) \<and>
   images_table (run store_down_env empty_world) = []"
proof -
  have u: "user store_down_env = Some \<lparr>uid = js ''u1''\<rparr>"
    by (simp add: store_down_env_def second_try_env_def base_env_def)
  have g: "guards_pass store_down_env"
    by (simp add: store_down_env_def second_try_env_def guards_pass_def base_env_def trim_def
        js_def is_white_space_def hf_def module_init_def)
  have tr: "trace store_down_env =
    [Set_loading True, Fetch (request_of store_down_env 0), Delay (Fin 7000),
     Set_loading True, Fetch (request_of store_down_env 1), Set_loading False, Set_loading False]
    @ reader_handlers store_down_env (Blob (Some (js ''data:image/png;base64,AA'')))"
    by (rule rate_then_ok_trace [OF _ g]) (simp add: store_down_env_def second_try_env_def)
  have ok: "generated_successfully \<in> set (trace store_down_env)"
    by (simp add: tr reader_handlers_def generated_successfully_def)
  have down: "\<not> store_reachable store_down_env"
    by (simp add: store_down_env_def)
  have "images_table (run store_down_env empty_world) = []"
    by (simp add: run_def tr reader_handlers_def saveImage_def u Let_def insert_error_def down
        insert_images_def empty_world_def)
  with u ok show ?thesis by simp
qed

text \<open>
  C9. When the insert of \<open>saveImage\<close> returns an error, \<open>saveImage\<close> logs it, shows
  "Failed to save image" and returns: its trace holds that one insert and the state is
  unchanged. In a run of \<open>generateImage\<close> whose insert fails, there is exactly one insert,
  the failure notification is followed by the success notification of the generation,
  the image set by \<open>setGeneratedImage\<close> before the save is still the displayed one at the
  end, and the table of the store is what it was.
\<close>

theorem failed_save_reported_once:
  "user env = Some u \<Longrightarrow>
     (\<forall>imageUrl p e.
        insert_error env \<lparr>new_user_id = uid u, new_image_url = imageUrl, new_prompt = p\<rparr> = Some e
        \<longrightarrow> saveImage env imageUrl p =
              [Insert \<lparr>new_user_id = uid u, new_image_url = imageUrl, new_prompt = p\<rparr>,
               Console_error, Toast_error (js ''Failed to save image'')] \<and>
            run_save env imageUrl p w = w) \<and>
     (\<forall>v e.
        Insert v \<in> set (trace env) \<and> insert_error env v = Some e \<longrightarrow>
          filter is_insert (trace env) = [Insert v] \<and>
          filter is_toast (trace env) =
            [Toast_error (js ''Failed to save image''), generated_successfully] \<and>
          filter is_display (trace env) = [Set_generated_image (new_image_url v)] \<and>
          generatedImage (run env w) = new_image_url v \<and>
          images_table (run env w) = images_table w)"
proof (intro conjI allI impI; (elim conjE)?)
  fix imageUrl p e
  assume u: "user env = Some u"
    and e: "insert_error env \<lparr>new_user_id = uid u, new_image_url = imageUrl, new_prompt = p\<rparr> = Some e"
  show "saveImage env imageUrl p =
              [Insert \<lparr>new_user_id = uid u, new_image_url = imageUrl, new_prompt = p\<rparr>,
               Console_error, Toast_error (js ''Failed to save image'')]"
    by (simp add: saveImage_def u e Let_def)
  then show "run_save env imageUrl p w = w"
    by (simp add: run_save_def insert_images_refused [OF e])
next
  fix v e
  assume u: "user env = Some u" and v: "Insert v \<in> set (trace env)"
    and e: "insert_error env v = Some e"
  from insert_shape [OF v] obtain b
    where s: "filter notable (trace env) = filter notable (reader_handlers env b)" ..
  let ?v = "\<lparr>new_user_id = uid u, new_image_url = data_url b, new_prompt = prompt env\<rparr>"
  from v have "Insert v \<in> set (filter notable (trace env))" by simp
  then have veq: "v = ?v"
    unfolding s handlers_signed_in [OF u]
    by (auto simp: generated_successfully_def split: option.splits)
  have e': "insert_error env ?v = Some e" using e veq by simp
  have "filter is_insert (filter notable (trace env)) = [Insert v]"
    by (simp add: s handlers_signed_in [OF u] veq generated_successfully_def e'
        split: option.splits)
  then show "filter is_insert (trace env) = [Insert v]"
    by (simp only: insert_notable)
  have "filter is_toast (filter notable (trace env)) =
      [Toast_error (js ''Failed to save image''), generated_successfully]"
    by (simp add: s handlers_signed_in [OF u] generated_successfully_def e'
        split: option.splits)
  then show "filter is_toast (trace env) =
      [Toast_error (js ''Failed to save image''), generated_successfully]"
    by (simp only: toast_notable)
  have "filter is_display (filter notable (trace env)) = [Set_generated_image (new_image_url v)]"
    by (simp add: s handlers_signed_in [OF u] veq generated_successfully_def e'
        split: option.splits)
  then show "filter is_display (trace env) = [Set_generated_image (new_image_url v)]"
    by (simp only: display_notable)
  show "generatedImage (run env w) = new_image_url v"
    using success_world(1) [OF u s, of w] by (simp add: veq)
  show "images_table (run env w) = images_table w"
    using success_world(2) [OF u s, of w] by (simp add: insert_images_refused [OF e'])
qed

text \<open>
  The theorem at a successful generation with a store that cannot be reached.
\<close>

theorem failed_save_reported_once_witness:
  "user store_down_env = Some \<lparr>uid = js ''u1''\<rparr> \<and>
   insert_error store_down_env
     \<lparr>new_user_id = js ''u1'', new_image_url = Some (js ''data:image/png;base64,AA''),
      new_prompt = js ''cat''\<rparr> = Some Store_unreachable \<and>
   saveImage store_down_env (Some (js ''data:image/png;base64,AA'')) (js ''cat'') =
     [Insert \<lparr>new_user_id = js ''u1'', new_image_url = Some (js ''data:image/png;base64,AA''),
              new_prompt = js ''cat''\<rparr>,
      Console_error, Toast_error (js ''Failed to save image'')] \<and>
   Insert \<lparr>new_user_id = js ''u1'', new_image_url = Some (js ''data:image/png;base64,AA''),
           new_prompt = js ''cat''\<rparr> \<in> set (trace store_down_env) \<and>
   filter is_insert (trace store_down_env) =
     [Insert \<lparr>new_user_id = js ''u1'', new_image_url = Some (js ''data:image/png;base64,AA''),
              new_prompt = js ''cat''\<rparr>] \<and>
   filter is_toast (trace store_down_env) =
     [Toast_error (js ''Failed to save image''), generated_successfully] \<and>
   generatedImage (run store_down_env empty_world) = Some (js ''data:image/png;base64,AA'') \<and>
   images_table (run store_down_env empty_world) = images_table empty_world"
proof -
  let ?v = "\<lparr>new_user_id = js ''u1'', new_image_url = Some (js ''data:image/png;base64,AA''),
             new_prompt = js ''cat''\<rparr>"
  have u: "user store_down_env = Some \<lparr>uid = js ''u1''\<rparr>"
    by (simp add: store_down_env_def second_try_env_def base_env_def)
  have g: "guards_pass store_down_env"
    by (simp add: store_down_env_def second_try_env_def guards_pass_def base_env_def trim_def
        js_def is_white_space_def hf_def module_init_def)
  have p: "prompt store_down_env = js ''cat''"
    by (simp add: store_down_env_def second_try_env_def base_env_def)
  have e: "insert_error store_down_env ?v = Some Store_unreachable"
    by (simp add: insert_error_def store_down_env_def)
  have tr: "trace store_down_env =
    [Set_loading True, Fetch (request_of store_down_env 0), Delay (Fin 7000),
     Set_loading True, Fetch (request_of store_down_env 1), Set_loading False, Set_loading False]
    @ reader_handlers store_down_env (Blob (Some (js ''data:image/png;base64,AA'')))"
    by (rule rate_then_ok_trace [OF _ g]) (simp add: store_down_env_def second_try_env_def)
  have v: "Insert ?v \<in> set (trace store_down_env)"
    by (simp add: tr reader_handlers_def saveImage_def u Let_def p)
  note T = failed_save_reported_once [OF u, of empty_world]
  from T [THEN conjunct1, rule_format, of "Some (js ''data:image/png;base64,AA'')" "js ''cat''"] e
  have a: "saveImage store_down_env (Some (js ''data:image/png;base64,AA'')) (js ''cat'') =
     [Insert ?v, Console_error, Toast_error (js ''Failed to save image'')]"
    by simp
  from T [THEN conjunct2, rule_format, OF conjI [OF v e]]
  have "filter is_insert (trace store_down_env) = [Insert ?v]"
    and "filter is_toast (trace store_down_env) =
      [Toast_error (js ''Failed to save image''), generated_successfully]"
    and "generatedImage (run store_down_env empty_world) = Some (js ''data:image/png;base64,AA'')"
    and "images_table (run store_down_env empty_world) = images_table empty_world"
    by simp_all
  with u e a v show ?thesis by simp
qed

text \<open>
  C8. For a signed-in user, whatever the query of \<open>loadImages\<close> returns becomes the
  gallery as it is (no limit, no page), holds only rows whose \<open>user_id\<close> is the user's id,
  and is ordered by \<open>created_at\<close>, latest first. When the store can be reached and sees
  the same identity (\<open>auth.uid()\<close> is the user's id), the gallery holds every row of the
  user in the table, each as often as the table has it. When the store cannot be
  reached the query fails and the gallery is left as it was.
\<close>

theorem gallery_lists_own_images_latest_first:
  "user env = Some u \<Longrightarrow>
     (\<forall>data. select_images env table (uid u) = Inr data \<longrightarrow>
        images (loadImages env table p) = data \<and>
        list_all (\<lambda>r. user_id r = uid u) data \<and>
        sorted_wrt (\<lambda>a b. created_at b \<le> created_at a) data) \<and>
     (store_reachable env \<and> auth_uid env = Some (uid u) \<longrightarrow>
        mset (images (loadImages env table p)) = filter_mset (\<lambda>r. user_id r = uid u) (mset table) \<and>
        sorted_wrt (\<lambda>a b. created_at b \<le> created_at a) (images (loadImages env table p)) \<and>
        list_all (\<lambda>r. user_id r = uid u) (images (loadImages env table p))) \<and>
     (\<not> store_reachable env \<longrightarrow> loadImages env table p = p)"
proof (intro conjI allI impI; (elim conjE)?)
  fix data
  assume u: "user env = Some u" and d: "select_images env table (uid u) = Inr data"
  show "images (loadImages env table p) = data" by (simp add: loadImages_def u d)
  show "list_all (\<lambda>r. user_id r = uid u) data" using d by (rule select_images_owner)
  show "sorted_wrt (\<lambda>a b. created_at b \<le> created_at a) data" using d by (rule select_images_sorted)
next
  assume u: "user env = Some u" and r: "store_reachable env" and a: "auth_uid env = Some (uid u)"
  from r obtain data where d: "select_images env table (uid u) = Inr data"
    by (simp add: select_images_def)
  have i: "images (loadImages env table p) = data" by (simp add: loadImages_def u d)
  have "mset data = filter_mset (\<lambda>r. user_id r = uid u \<and> auth_uid env = Some (user_id r)) (mset table)"
    using d by (rule select_images_rows)
  also have "\<dots> = filter_mset (\<lambda>r. user_id r = uid u) (mset table)"
    by (rule filter_mset_cong) (auto simp: a)
  finally show "mset (images (loadImages env table p))
      = filter_mset (\<lambda>r. user_id r = uid u) (mset table)"
    by (simp add: i)
  show "sorted_wrt (\<lambda>a b. created_at b \<le> created_at a) (images (loadImages env table p))"
    unfolding i using d by (rule select_images_sorted)
  show "list_all (\<lambda>r. user_id r = uid u) (images (loadImages env table p))"
    unfolding i using d by (rule select_images_owner)
next
  assume u: "user env = Some u" and "\<not> store_reachable env"
  then show "loadImages env table p = p"
    by (simp add: loadImages_def select_images_def)
qed

text \<open>
  The theorem at a table with two rows of the user and one of somebody else, and at a
  store that cannot be reached.
\<close>

theorem gallery_lists_own_images_latest_first_witness:
  "user base_env = Some \<lparr>uid = js ''u1''\<rparr> \<and>
   store_reachable base_env \<and> auth_uid base_env = Some (js ''u1'') \<and>
   select_images base_env [other_row, old_row, recent_row] (js ''u1'') = Inr [recent_row, old_row] \<and>
   images (loadImages base_env [other_row, old_row, recent_row] empty_profile)
     = [recent_row, old_row] \<and>
   mset (images (loadImages base_env [other_row, old_row, recent_row] empty_profile))
     = filter_mset (\<lambda>r. user_id r = js ''u1'') (mset [other_row, old_row, recent_row]) \<and>
   \<not> store_reachable store_down_env \<and>
   loadImages store_down_env [other_row, old_row, recent_row] empty_profile = empty_profile"
proof -
  have u: "user base_env = Some \<lparr>uid = js ''u1''\<rparr>"
    and r: "store_reachable base_env" and a: "auth_uid base_env = Some (js ''u1'')"
    by (simp_all add: base_env_def)
  have u': "user store_down_env = Some \<lparr>uid = js ''u1''\<rparr>"
    and r': "\<not> store_reachable store_down_env"
    by (simp_all add: store_down_env_def second_try_env_def base_env_def)
  have ne: "js ''u2'' \<noteq> js ''u1''" "js ''u1'' \<noteq> js ''u2''" by (simp_all add: js_def)
  have s: "select_images base_env [other_row, old_row, recent_row] (js ''u1'')
      = Inr [recent_row, old_row]"
    by (simp add: select_images_def r a other_row_def old_row_def recent_row_def ne)
  note T = gallery_lists_own_images_latest_first [OF u, of "[other_row, old_row, recent_row]" empty_profile]
  from T [THEN conjunct1, rule_format, of "[recent_row, old_row]"] s
  have i: "images (loadImages base_env [other_row, old_row, recent_row] empty_profile)
      = [recent_row, old_row]"
    by simp
  from T [THEN conjunct2, THEN conjunct1] r a
  have m: "mset (images (loadImages base_env [other_row, old_row, recent_row] empty_profile))
     = filter_mset (\<lambda>r. user_id r = js ''u1'') (mset [other_row, old_row, recent_row])"
    by simp
  from gallery_lists_own_images_latest_first
    [OF u', of "[other_row, old_row, recent_row]" empty_profile, THEN conjunct2, THEN conjunct2] r'
  have d: "loadImages store_down_env [other_row, old_row, recent_row] empty_profile = empty_profile"
    by simp
  from u r a s i m r' d show ?thesis by blast
qed






text \<open>
  C3 (defect of the code). The retries are bounded (\<open>fetch_bound\<close>, \<open>delay_bound\<close>: at most
  4 network calls and 3 waits) and a call that returns ends as a failure or as a success
  (\<open>terminal\<close>), but a call need not return. The abort timer is cleared as soon as the
  response has arrived (line 99), and the body is awaited after that (lines 102 and
  128): when the upstream answers the first attempt in time with a response whose body
  never ends, \<open>generateImage\<close> is left at that \<open>await\<close>. It never returns, shows no
  notification, and the loading flag stays set.
\<close>

theorem stalled_body_never_returns:
  "fetch_result stalled_env (network (upstream stalled_env 0)) = Inr stalled_response \<and>
   blob_result stalled_response = Pending \<and>
   trace stalled_env = [Set_loading True, Fetch (request_of stalled_env 0), Awaits_forever] \<and>
   \<not> returns stalled_env \<and>
   \<not> terminal_failure (trace stalled_env) \<and>
   \<not> terminal_success (trace stalled_env) \<and>
   loading (run stalled_env empty_world)"
proof -
  have g: "guards_pass stalled_env" by (simp add: stalled_env_def)
  have f: "fetch_result stalled_env (network (upstream stalled_env 0)) = Inr stalled_response"
    by (simp add: stalled_env_def fetch_result_def FETCH_TIMEOUT_def)
  have b: "blob_result stalled_response = Pending"
    by (simp add: stalled_response_def)
  have "try_block stalled_env 0 = Hangs"
    by (simp add: try_block_def f ok_def stalled_response_def)
  from gen_hangs [OF g this]
  have tr: "trace stalled_env = [Set_loading True, Fetch (request_of stalled_env 0), Awaits_forever]"
    by (simp add: trace_def events_def)
  show ?thesis
    by (simp add: f b tr returns_def terminal_failure_def terminal_success_def run_def)
qed

text \<open>
  C2 (defect of the code). The \<open>catch\<close> block recognises a network failure by the
  words "Failed to fetch" in the error's message (line 149). A \<open>fetch\<close> that fails with a
  network error worded otherwise, here as "NetworkError when attempting to fetch
  resource.", is not retried: at retry count 0 the run is one network call, no wait, and
  the error's message as the notification.
\<close>

theorem network_error_not_retried:
  "fetch_result unreachable_env (network (upstream unreachable_env 0)) = Inl network_error \<and>
   \<not> transport_failure network_error \<and>
   trace unreachable_env =
     [Set_loading True, Fetch (request_of unreachable_env 0), Console_error,
      Toast_error (js ''NetworkError when attempting to fetch resource.''), Set_loading False] \<and>
   filter is_delay (trace unreachable_env) = [] \<and>
   length (filter is_fetch (trace unreachable_env)) = 1"
proof -
  have g: "guards_pass unreachable_env" by (simp add: unreachable_env_def)
  have f: "fetch_result unreachable_env (network (upstream unreachable_env 0)) = Inl network_error"
    by (simp add: unreachable_env_def fetch_result_def FETCH_TIMEOUT_def)
  have n: "\<not> transport_failure network_error"
    by (simp add: network_error_def js_def)
  then have "\<not> (transport_failure network_error \<and> 0 < MAX_RETRIES)" by simp
  from gen_throw_report [OF g try_block_rejected [OF f] this]
  have tr: "trace unreachable_env =
     [Set_loading True, Fetch (request_of unreachable_env 0), Console_error,
      Toast_error (js ''NetworkError when attempting to fetch resource.''), Set_loading False]"
    by (simp add: trace_def events_def network_error_def)
  show ?thesis by (simp add: f n tr)
qed

end
